theory Spec2Isabelle
  imports Complex_Main
begin

section \<open>Numbers and strings of the scene script\<close>

text \<open>
  The scene is TypeScript. \<open>Date.now()\<close> and every duration derived from it are whole
  milliseconds and are modelled as \<open>int\<close>; frame deltas, poll intervals and coordinates
  are JavaScript numbers and are modelled as \<open>real\<close> (rounding of doubles is not
  modelled). A template literal prints a whole number in decimal:
  \<open>numToString\<close> is that conversion (exact below \<open>10^21\<close>, where JavaScript switches to
  exponent notation).
\<close>

definition digitChar :: "nat \<Rightarrow> char" where
  "digitChar d = ''0123456789'' ! d"

fun showNat :: "nat \<Rightarrow> string" where
  "showNat n = (if n < 10 then [digitChar n] else showNat (n div 10) @ [digitChar (n mod 10)])"

declare showNat.simps [simp del]

definition numToString :: "int \<Rightarrow> string" where
  "numToString i = (if i < 0 then ''-'' @ showNat (nat (- i)) else showNat (nat i))"

section \<open>Countdown formatter (index.ts, formatTimeRemaining)\<close>

definition opensPrefix :: string where
  "opensPrefix = ''PORTAL OPENS IN:'' @ [CHR 0x0A]"

definition closesPrefix :: string where
  "closesPrefix = ''PORTAL CLOSES IN:'' @ [CHR 0x0A]"

definition formatTimeRemaining :: "int \<Rightarrow> bool \<Rightarrow> string" where
  "formatTimeRemaining milliseconds isBeforeStart =
     (if milliseconds \<le> 0
      then (if isBeforeStart then ''PORTAL OPENING SOON...'' else ''PORTAL CLOSED'')
      else
        let totalSeconds = milliseconds div 1000;
            days = totalSeconds div 86400;
            hours = (totalSeconds mod 86400) div 3600;
            minutes = (totalSeconds mod 3600) div 60;
            seconds = totalSeconds mod 60;
            prefix = (if isBeforeStart then opensPrefix else closesPrefix)
        in if days > 0
           then prefix @ numToString days @ ''d '' @ numToString hours @ ''h ''
                  @ numToString minutes @ ''m''
           else if hours > 0
           then prefix @ numToString hours @ ''h '' @ numToString minutes @ ''m''
           else if minutes > 0
           then prefix @ numToString minutes @ ''m '' @ numToString seconds @ ''s''
           else prefix @ numToString seconds @ ''s'')"

section \<open>Clock/window evaluator (index.ts, shouldPortalBeActive)\<close>

text \<open>
  The four module constants at the top of index.ts are the configuration of the portal.
  \<open>LAUNCH_END_TIME = 0\<close> means that the window never closes.
\<close>

record config =
  ROCKSCAPE_PORTAL_SHUTDOWN :: bool
  ENABLE_TIMED_LAUNCH :: bool
  LAUNCH_START_TIME :: int
  LAUNCH_END_TIME :: int

text \<open>The argument \<open>now\<close> is the value of \<open>Date.now()\<close> read inside the function.\<close>

definition shouldPortalBeActive :: "config \<Rightarrow> int \<Rightarrow> bool" where
  "shouldPortalBeActive cfg now =
     (if ROCKSCAPE_PORTAL_SHUTDOWN cfg then False
      else if \<not> ENABLE_TIMED_LAUNCH cfg then True
      else if LAUNCH_END_TIME cfg = 0 then LAUNCH_START_TIME cfg \<le> now
      else LAUNCH_START_TIME cfg \<le> now \<and> now < LAUNCH_END_TIME cfg)"

section \<open>Zone membership (index.ts, inline box tests)\<close>

datatype vec3 = Vector3 (vx: real) (vy: real) (vz: real)

definition Zero :: vec3 where
  "Zero = Vector3 0 0 0"

text \<open>Kersplat zone 1 of the continuous scanner (lines 1280-1289).\<close>

definition inZone1 :: "vec3 \<Rightarrow> bool" where
  "inZone1 playerPos =
     (let zone1Pos = Vector3 168 0 (- 24);
          zone1SizeX = 140; zone1SizeY = 1; zone1SizeZ = 160;
          distX1 = \<bar>vx playerPos - vx zone1Pos\<bar>;
          distY1 = \<bar>vy playerPos - vy zone1Pos\<bar>;
          distZ1 = \<bar>vz playerPos - vz zone1Pos\<bar>
      in distX1 \<le> zone1SizeX / 2 \<and> distY1 \<le> zone1SizeY / 2 \<and> distZ1 \<le> zone1SizeZ / 2)"

text \<open>Kersplat zone 2 of the continuous scanner (lines 1292-1301).\<close>

definition inZone2 :: "vec3 \<Rightarrow> bool" where
  "inZone2 playerPos =
     (let zone2Pos = Vector3 168 12 (- 24);
          zone2SizeX = 50; zone2SizeY = 1; zone2SizeZ = 50;
          distX2 = \<bar>vx playerPos - vx zone2Pos\<bar>;
          distY2 = \<bar>vy playerPos - vy zone2Pos\<bar>;
          distZ2 = \<bar>vz playerPos - vz zone2Pos\<bar>
      in distX2 \<le> zone2SizeX / 2 \<and> distY2 \<le> zone2SizeY / 2 \<and> distZ2 \<le> zone2SizeZ / 2)"

text \<open>
  The waiting zone of the instant teleport (lines 1497-1516): the conjunction
  \<open>isWithinX && isWithinY && isWithinZ\<close>.
\<close>

definition inInstantTeleportZone :: "vec3 \<Rightarrow> bool" where
  "inInstantTeleportZone playerPos =
     (let zonePos = Vector3 (1688 / 10) 22 (- 32);
          zoneSize = 8;
          distX = \<bar>vx playerPos - vx zonePos\<bar>;
          distY = \<bar>vy playerPos - vy zonePos\<bar>;
          distZ = \<bar>vz playerPos - vz zonePos\<bar>;
          isWithinX = distX \<le> zoneSize / 2;
          isWithinY = distY \<le> zoneSize / 2;
          isWithinZ = distZ \<le> zoneSize / 2
      in isWithinX \<and> isWithinY \<and> isWithinZ)"

section \<open>Portal state machine (index.ts, main and the countdown system)\<close>

text \<open>
  The first five fields are the module variables of index.ts (lines 129-133). The others
  are the part of the host's entity store that the countdown system writes: the scale of
  the portal model, of the teleport trigger zone and of the countdown text entity, the
  displayed text, the number of enter-callbacks registered on the teleport trigger zone by
  \<open>utils.triggers.addTrigger\<close>, the number of \<open>movePlayerTo\<close> calls of the instant
  teleport, and the number of pending two-second timeouts that clear
  \<open>instantTeleportCheckActive\<close>.
\<close>

record portal_state =
  isPortalActive :: bool
  countdownText :: string
  timeSinceLastCheck :: real
  triggerAdded :: bool
  instantTeleportCheckActive :: bool
  portalScale :: vec3
  triggerZoneScale :: vec3
  countdownTimerScale :: vec3
  countdownShapeText :: string
  triggerZoneCallbacks :: nat
  instantTeleports :: nat
  instantTeleportTimeouts :: nat

text \<open>
  The countdown text and the time to the next boundary of the window
  (lines 1428-1446, and 1346-1360 in main): the pair \<open>(newCountdownText, timeUntilEvent)\<close>.
\<close>

definition countdownAt :: "config \<Rightarrow> int \<Rightarrow> string \<times> int" where
  "countdownAt cfg now =
     (let isBeforeStart = now < LAUNCH_START_TIME cfg;
          isActive = LAUNCH_START_TIME cfg \<le> now \<and>
                     (LAUNCH_END_TIME cfg = 0 \<or> now < LAUNCH_END_TIME cfg)
      in if isBeforeStart
         then (formatTimeRemaining (LAUNCH_START_TIME cfg - now) True, LAUNCH_START_TIME cfg - now)
         else if isActive \<and> LAUNCH_END_TIME cfg = 0
         then (''PORTAL ACTIVE'', 0)
         else if isActive
         then (formatTimeRemaining (LAUNCH_END_TIME cfg - now) False, LAUNCH_END_TIME cfg - now)
         else (''PORTAL CLOSED'', 0))"

text \<open>The poll interval in seconds (lines 1455-1475).\<close>

definition checkInterval :: "bool \<Rightarrow> int \<Rightarrow> real" where
  "checkInterval needsImmediateCheck timeUntilEvent =
     (if needsImmediateCheck then 0
      else if timeUntilEvent \<le> 0 then 1
      else if timeUntilEvent \<le> 5000 then 0
      else if timeUntilEvent \<le> 600000 then 1
      else if timeUntilEvent \<le> 3600000 then 10
      else 60)"

text \<open>
  The part of main that builds the portal (lines 927-931, 1019-1048, 1343-1373).
  \<open>now\<close> is the clock read by \<open>shouldPortalBeActive\<close>, \<open>now2\<close> the later read that
  computes the initial countdown. The countdown entity gets its components only when the
  countdown system is installed; otherwise its fields here stay unused.
\<close>

definition main :: "config \<Rightarrow> int \<Rightarrow> int \<Rightarrow> portal_state" where
  "main cfg now now2 =
     (let active = shouldPortalBeActive cfg now;
          installed = ENABLE_TIMED_LAUNCH cfg \<and> \<not> ROCKSCAPE_PORTAL_SHUTDOWN cfg;
          initialCountdown = (if installed then fst (countdownAt cfg now2) else [])
      in \<lparr> isPortalActive = active,
           countdownText = initialCountdown,
           timeSinceLastCheck = 0,
           triggerAdded = False,
           instantTeleportCheckActive = False,
           portalScale = (if active then Vector3 1 1 1 else Zero),
           triggerZoneScale = (if active then Vector3 2 2 2 else Zero),
           countdownTimerScale = (if installed then Vector3 1 1 1 else Zero),
           countdownShapeText = initialCountdown,
           triggerZoneCallbacks = (if active then 1 else 0),
           instantTeleports = 0,
           instantTeleportTimeouts = 0 \<rparr>)"

text \<open>The instant teleport of a player who waits at the portal (lines 1493-1534).\<close>

definition instantTeleportCheck :: "bool \<Rightarrow> vec3 \<Rightarrow> portal_state \<Rightarrow> portal_state" where
  "instantTeleportCheck needsImmediateCheck playerPos s =
     (if needsImmediateCheck \<and> \<not> instantTeleportCheckActive s
      then (if inInstantTeleportZone playerPos
            then s \<lparr> instantTeleportCheckActive := True,
                     instantTeleports := instantTeleports s + 1,
                     instantTeleportTimeouts := instantTeleportTimeouts s + 1 \<rparr>
            else s)
      else s)"

text \<open>Activation and deactivation, edge-triggered (lines 1537-1585).\<close>

definition portalTransition :: "bool \<Rightarrow> portal_state \<Rightarrow> portal_state" where
  "portalTransition shouldBeActive s =
     (if shouldBeActive \<and> \<not> isPortalActive s
      then (let s1 = s \<lparr> isPortalActive := True,
                          portalScale := Vector3 1 1 1,
                          triggerZoneScale := Vector3 2 2 2 \<rparr>
            in if \<not> triggerAdded s1
               then s1 \<lparr> triggerZoneCallbacks := triggerZoneCallbacks s1 + 1,
                         triggerAdded := True \<rparr>
               else s1)
      else if \<not> shouldBeActive \<and> isPortalActive s
      then s \<lparr> isPortalActive := False,
               portalScale := Zero,
               triggerZoneScale := Zero,
               countdownTimerScale := Zero \<rparr>
      else s)"

text \<open>
  One frame of the countdown system (lines 1424-1588). \<open>dt\<close> is the frame delta in
  seconds, \<open>now\<close> the clock read at line 1427, \<open>now2\<close> the clock read inside
  \<open>shouldPortalBeActive\<close> at line 1449, \<open>playerPos\<close> the player's position.
\<close>

definition countdownSystem :: "config \<Rightarrow> real \<Rightarrow> int \<Rightarrow> int \<Rightarrow> vec3 \<Rightarrow> portal_state \<Rightarrow> portal_state" where
  "countdownSystem cfg dt now now2 playerPos s =
     (let s0 = s \<lparr> timeSinceLastCheck := timeSinceLastCheck s + dt \<rparr>;
          newCountdownText = fst (countdownAt cfg now);
          timeUntilEvent = snd (countdownAt cfg now);
          shouldBeActive = shouldPortalBeActive cfg now2;
          needsImmediateCheck = shouldBeActive \<and> \<not> isPortalActive s0
      in if \<not> needsImmediateCheck \<and>
            timeSinceLastCheck s0 < checkInterval needsImmediateCheck timeUntilEvent
         then s0
         else
           let s1 = s0 \<lparr> timeSinceLastCheck := 0 \<rparr>;
               s2 = (if newCountdownText \<noteq> countdownText s1
                     then s1 \<lparr> countdownText := newCountdownText,
                               countdownShapeText := newCountdownText \<rparr>
                     else s1);
               s3 = instantTeleportCheck needsImmediateCheck playerPos s2
           in portalTransition shouldBeActive s3)"

text \<open>
  What the host can do to the portal state: run a frame of the countdown system, which
  main installs only under \<open>ENABLE_TIMED_LAUNCH && !ROCKSCAPE_PORTAL_SHUTDOWN\<close>, fire
  the two-second timeout set by the instant teleport (lines 1528-1530), or report that the
  player entered the waiting zone, whose callback teleports while
  \<open>instantTeleportCheckActive\<close> is set (lines 1394-1411; the zone and its callback
  exist under the same condition as the system).
\<close>

datatype portal_event = Frame real int int vec3 | InstantTeleportTimeout | EnterWaitingZone

fun portalStep :: "config \<Rightarrow> portal_event \<Rightarrow> portal_state \<Rightarrow> portal_state" where
  "portalStep cfg (Frame dt now now2 playerPos) s =
     (if ENABLE_TIMED_LAUNCH cfg \<and> \<not> ROCKSCAPE_PORTAL_SHUTDOWN cfg
      then countdownSystem cfg dt now now2 playerPos s
      else s)"
| "portalStep cfg InstantTeleportTimeout s =
     (if 0 < instantTeleportTimeouts s
      then s \<lparr> instantTeleportCheckActive := False,
               instantTeleportTimeouts := instantTeleportTimeouts s - 1 \<rparr>
      else s)"
| "portalStep cfg EnterWaitingZone s =
     (if ENABLE_TIMED_LAUNCH cfg \<and> \<not> ROCKSCAPE_PORTAL_SHUTDOWN cfg
         \<and> instantTeleportCheckActive s
      then s \<lparr> instantTeleports := instantTeleports s + 1 \<rparr>
      else s)"

fun portalRun :: "config \<Rightarrow> portal_event list \<Rightarrow> portal_state \<Rightarrow> portal_state" where
  "portalRun cfg [] s = s"
| "portalRun cfg (e # es) s = portalRun cfg es (portalStep cfg e s)"

text \<open>The number of steps of a run at which the portal goes from inactive to active.\<close>

fun activationEdges :: "config \<Rightarrow> portal_event list \<Rightarrow> portal_state \<Rightarrow> nat" where
  "activationEdges cfg [] s = 0"
| "activationEdges cfg (e # es) s =
     (if \<not> isPortalActive s \<and> isPortalActive (portalStep cfg e s) then 1 else 0)
     + activationEdges cfg es (portalStep cfg e s)"

section \<open>Continuous fall-zone scanner (index.ts, lines 1272-1338)\<close>

text \<open>
  \<open>kersplatCooldown\<close> is the closure variable of the scanner; \<open>scannerRespawns\<close> counts
  the respawns (\<open>movePlayerTo\<close>) the scanner performs, and \<open>cooldownTimers\<close> holds the due
  times of the pending \<open>utils.timers.setTimeout\<close> callbacks that clear the cooldown.
  The timer utility belongs to the host library: a timeout set at clock \<open>t\<close> with delay
  \<open>3000\<close> is taken to fire at the first run of the timer system at a clock of at least
  \<open>t + 3000\<close>. The timeouts that start the landing camera do not touch the scanner's
  state and are left out.
\<close>

record scanner_state =
  kersplatCooldown :: bool
  scannerRespawns :: nat
  cooldownTimers :: "int list"

definition scannerInit :: scanner_state where
  "scannerInit = \<lparr> kersplatCooldown = False, scannerRespawns = 0, cooldownTimers = [] \<rparr>"

text \<open>One frame of the scanner system at clock \<open>now\<close>.\<close>

definition kersplatSystem :: "int \<Rightarrow> vec3 \<Rightarrow> scanner_state \<Rightarrow> scanner_state" where
  "kersplatSystem now playerPos s =
     (if kersplatCooldown s then s
      else if inZone1 playerPos \<or> inZone2 playerPos
      then s \<lparr> kersplatCooldown := True,
               scannerRespawns := scannerRespawns s + 1,
               cooldownTimers := (now + 3000) # cooldownTimers s \<rparr>
      else s)"

text \<open>The host's timer system at clock \<open>now\<close>: every due callback runs and is removed.\<close>

definition fireCooldownTimers :: "int \<Rightarrow> scanner_state \<Rightarrow> scanner_state" where
  "fireCooldownTimers now s =
     (if list_ex (\<lambda>due. due \<le> now) (cooldownTimers s)
      then s \<lparr> kersplatCooldown := False,
               cooldownTimers := filter (\<lambda>due. now < due) (cooldownTimers s) \<rparr>
      else s)"

datatype scanner_event = Scan int vec3 | Timers int

fun eventClock :: "scanner_event \<Rightarrow> int" where
  "eventClock (Scan now playerPos) = now"
| "eventClock (Timers now) = now"

fun scannerStep :: "scanner_event \<Rightarrow> scanner_state \<Rightarrow> scanner_state" where
  "scannerStep (Scan now playerPos) s = kersplatSystem now playerPos s"
| "scannerStep (Timers now) s = fireCooldownTimers now s"

fun scannerRun :: "scanner_event list \<Rightarrow> scanner_state \<Rightarrow> scanner_state" where
  "scannerRun [] s = s"
| "scannerRun (e # es) s = scannerRun es (scannerStep e s)"

section \<open>Cinematic camera (cameraSystem.ts, src/unnamed/part_004)\<close>

datatype animation = Tree | Portal | Npc | Running | Landing

datatype phase = Tilt | Hold | Orbit | Return

datatype camera = TreeCinematicCamera | PortalCinematicCamera | NpcCinematicCamera
  | RunningCinematicCamera | LandingCinematicCamera

text \<open>
  The module variables that the animation system reads or writes, followed by the host
  state it touches: the virtual camera bound to the main camera (\<open>None\<close> is the default
  player camera) and the positions of the tree and landing camera entities.
\<close>

record camera_state =
  activeCinematicCamera :: "camera option"
  isAnimating :: bool
  animationStartTime :: int
  animationDuration :: int
  animationType :: "animation option"
  orbitStartAngle :: real
  orbitCenter :: vec3
  orbitRadius :: real
  treeCameraPhase :: phase
  returnStartPos :: vec3
  returnStartTime :: int
  virtualCameraEntity :: "camera option"
  treeCameraPosition :: vec3
  landingCameraPosition :: vec3

text \<open>\<open>Vector3.lerp\<close> of the host's math library.\<close>

definition lerp :: "vec3 \<Rightarrow> vec3 \<Rightarrow> real \<Rightarrow> vec3" where
  "lerp a b amount =
     Vector3 (vx a + (vx b - vx a) * amount)
             (vy a + (vy b - vy a) * amount)
             (vz a + (vz b - vz a) * amount)"

definition resetToDefaultCamera :: "camera_state \<Rightarrow> camera_state" where
  "resetToDefaultCamera s =
     (if activeCinematicCamera s \<noteq> None
      then s \<lparr> virtualCameraEntity := None,
               activeCinematicCamera := None,
               isAnimating := False,
               animationType := None,
               treeCameraPhase := Tilt \<rparr>
      else s)"

definition startTreeCameraOrbit :: "int \<Rightarrow> camera_state \<Rightarrow> camera_state" where
  "startTreeCameraOrbit now s =
     (if animationType s = Some Tree \<and> treeCameraPhase s = Hold
      then s \<lparr> treeCameraPhase := Orbit, animationStartTime := now, isAnimating := True \<rparr>
      else s)"

definition resetTreeCamera :: "int \<Rightarrow> camera_state \<Rightarrow> camera_state" where
  "resetTreeCamera now s =
     (if animationType s = Some Tree
      then s \<lparr> returnStartPos := treeCameraPosition s,
               returnStartTime := now,
               treeCameraPhase := Return,
               isAnimating := True \<rparr>
      else resetToDefaultCamera s)"

text \<open>The position on the orbit circle at an angle in degrees and a height.\<close>

definition orbitPosition :: "camera_state \<Rightarrow> real \<Rightarrow> real \<Rightarrow> vec3" where
  "orbitPosition s angle height =
     Vector3 (vx (orbitCenter s) + sin ((angle * pi) / 180) * orbitRadius s)
             height
             (vz (orbitCenter s) + cos ((angle * pi) / 180) * orbitRadius s)"

text \<open>
  One frame of the animation system (lines 100-223). \<open>now\<close> is the clock read at line
  103 and \<open>now2\<close> the one read at line 164 in the return phase. The value \<open>progress\<close> of
  line 104 is never used and is left out.
\<close>

definition treeFrame :: "int \<Rightarrow> int \<Rightarrow> vec3 \<Rightarrow> camera_state \<Rightarrow> camera_state" where
  "treeFrame elapsed now2 playerPos s =
     (let tiltDuration = 1500; orbitDuration = 7400; returnDuration = 2000
      in case treeCameraPhase s of
           Tilt \<Rightarrow>
             (let tiltProgress = min (real_of_int elapsed / tiltDuration) 1;
                  startHeight = vy (orbitCenter s) + 2;
                  endHeight = vy (orbitCenter s) - 1 / 2;
                  currentHeight = startHeight + ((endHeight - startHeight) * tiltProgress);
                  s1 = s \<lparr> treeCameraPosition :=
                             orbitPosition s (orbitStartAngle s) currentHeight \<rparr>
              in if 1 \<le> tiltProgress then s1 \<lparr> treeCameraPhase := Hold \<rparr> else s1)
         | Hold \<Rightarrow>
             s \<lparr> treeCameraPosition :=
                   orbitPosition s (orbitStartAngle s) (vy (orbitCenter s) - 1 / 2) \<rparr>
         | Orbit \<Rightarrow>
             (let orbitProgress = min (real_of_int elapsed / orbitDuration) 1;
                  angle = orbitStartAngle s - (180 * orbitProgress);
                  s1 = s \<lparr> treeCameraPosition :=
                             orbitPosition s angle (vy (orbitCenter s) - 1 / 2) \<rparr>
              in if 1 \<le> orbitProgress then s1 \<lparr> isAnimating := False \<rparr> else s1)
         | Return \<Rightarrow>
             (let returnElapsed = now2 - returnStartTime s;
                  returnProgress = min (real_of_int returnElapsed / returnDuration) 1;
                  targetPos = Vector3 (vx playerPos) (vy playerPos + 18 / 10) (vz playerPos);
                  s1 = s \<lparr> treeCameraPosition :=
                             lerp (returnStartPos s) targetPos returnProgress \<rparr>
              in if 1 \<le> returnProgress
                 then s1 \<lparr> virtualCameraEntity := None,
                           activeCinematicCamera := None,
                           isAnimating := False,
                           animationType := None,
                           treeCameraPhase := Tilt \<rparr>
                 else s1))"

definition landingFrame :: "int \<Rightarrow> camera_state \<Rightarrow> camera_state" where
  "landingFrame elapsed s =
     (let panDuration = 3000;
          panProgress = min (real_of_int elapsed / panDuration) 1;
          startHeight = vy (orbitCenter s) - 1;
          endHeight = vy (orbitCenter s) + 1 / 2;
          currentHeight = startHeight + ((endHeight - startHeight) * panProgress);
          s1 = s \<lparr> landingCameraPosition :=
                     orbitPosition s (orbitStartAngle s) currentHeight \<rparr>
      in if 1 \<le> panProgress then resetToDefaultCamera s1 else s1)"

definition cameraSystem :: "int \<Rightarrow> int \<Rightarrow> vec3 \<Rightarrow> camera_state \<Rightarrow> camera_state" where
  "cameraSystem now now2 playerPos s =
     (if \<not> isAnimating s \<or> animationType s = None then s
      else
        let elapsed = now - animationStartTime s
        in case animationType s of
             Some Tree \<Rightarrow> treeFrame elapsed now2 playerPos s
           | Some Landing \<Rightarrow> landingFrame elapsed s
           | _ \<Rightarrow> s)"

text \<open>A run of frames of the animation system, each with its two clock reads and the
  player's position.\<close>

fun cameraRun :: "(int \<times> int \<times> vec3) list \<Rightarrow> camera_state \<Rightarrow> camera_state" where
  "cameraRun [] s = s"
| "cameraRun ((now, now2, playerPos) # fs) s = cameraRun fs (cameraSystem now now2 playerPos s)"

section \<open>Example configuration and runs\<close>

text \<open>
  A window from clock 100000 to clock 200000 with the timed launch switched on, and two runs
  of frames with the player far from the portal: one that opens the window, closes it and
  opens it again (the clock is set back), and its last two frames alone.
\<close>

definition closedWindow :: config where
  "closedWindow = \<lparr> ROCKSCAPE_PORTAL_SHUTDOWN = False, ENABLE_TIMED_LAUNCH = True,
                    LAUNCH_START_TIME = 100000, LAUNCH_END_TIME = 200000 \<rparr>"

definition openCloseOpen :: "portal_event list" where
  "openCloseOpen = [Frame 1 150000 150000 Zero, Frame 100 250000 250000 Zero,
                    Frame 1 150000 150000 Zero]"

definition closeOpen :: "portal_event list" where
  "closeOpen = [Frame 100 250000 250000 Zero, Frame 1 150000 150000 Zero]"

text \<open>
  A tree sequence in its orbit phase: the orbit started at clock 5000 around a player at
  the tree trigger, with the tree camera bound to the main camera.
\<close>

definition orbiting :: camera_state where
  "orbiting = \<lparr> activeCinematicCamera = Some TreeCinematicCamera,
                isAnimating = True,
                animationStartTime = 5000,
                animationDuration = 1500,
                animationType = Some Tree,
                orbitStartAngle = 180,
                orbitCenter = Vector3 144 (37 / 10) 108,
                orbitRadius = 5,
                treeCameraPhase = Orbit,
                returnStartPos = Zero,
                returnStartTime = 0,
                virtualCameraEntity = Some TreeCinematicCamera,
                treeCameraPosition = Vector3 144 (32 / 10) 103,
                landingCameraPosition = Vector3 0 1 4 \<rparr>"

section \<open>Properties of the countdown formatter\<close>

lemma ms_component:
  fixes ms :: int
  assumes "0 < k" "0 < j"
  shows "(ms mod (1000 * k)) div (1000 * j) = ((ms div 1000) mod k) div j"
proof -
  have "ms mod (1000 * k) = 1000 * ((ms div 1000) mod k) + ms mod 1000"
    using assms by (simp add: zmod_zmult2_eq)
  moreover have "(1000 * ((ms div 1000) mod k) + ms mod 1000) div (1000 * j)
      = ((1000 * ((ms div 1000) mod k) + ms mod 1000) div 1000) div j"
    using assms by (simp add: zdiv_zmult2_eq)
  moreover have "(1000 * ((ms div 1000) mod k) + ms mod 1000) div 1000 = (ms div 1000) mod k"
    by simp
  ultimately show ?thesis by simp
qed

lemma days_component: "(ms::int) div 86400000 = (ms div 1000) div 86400"
  using zdiv_zmult2_eq [of 86400 ms 1000] by simp

lemma hours_component:
  "((ms::int) mod 86400000) div 3600000 = ((ms div 1000) mod 86400) div 3600"
  using ms_component [of 86400 3600 ms] by simp

lemma minutes_component:
  "((ms::int) mod 3600000) div 60000 = ((ms div 1000) mod 3600) div 60"
  using ms_component [of 3600 60 ms] by simp

lemma seconds_component: "((ms::int) mod 60000) div 1000 = (ms div 1000) mod 60"
  using ms_component [of 60 1 ms] by simp

lemma seconds_split:
  fixes ts :: int
  shows "ts = (ts div 86400) * 86400 + ((ts mod 86400) div 3600) * 3600
      + ((ts mod 3600) div 60) * 60 + ts mod 60"
proof -
  have a: "ts = (ts div 86400) * 86400 + ts mod 86400" by simp
  have b: "ts mod 86400 = ((ts mod 86400) div 3600) * 3600 + (ts mod 86400) mod 3600" by simp
  have c: "(ts mod 86400) mod 3600 = ts mod 3600" by (simp add: mod_mod_cancel)
  have d: "ts mod 3600 = ((ts mod 3600) div 60) * 60 + (ts mod 3600) mod 60" by simp
  have e: "(ts mod 3600) mod 60 = ts mod 60" by (simp add: mod_mod_cancel)
  show ?thesis using a b c d e by linarith
qed

lemma components_sum:
  fixes ms :: int
  shows "(ms div 86400000) * 86400000 + ((ms mod 86400000) div 3600000) * 3600000
      + ((ms mod 3600000) div 60000) * 60000 + ((ms mod 60000) div 1000) * 1000
      = ms - ms mod 1000"
proof -
  have "ms - ms mod 1000 = (ms div 1000) * 1000"
    by (simp add: minus_mod_eq_div_mult)
  also have "\<dots> = ((ms div 1000 div 86400) * 86400 + ((ms div 1000 mod 86400) div 3600) * 3600
      + ((ms div 1000 mod 3600) div 60) * 60 + ms div 1000 mod 60) * 1000"
    using seconds_split [of "ms div 1000"] by simp
  finally show ?thesis
    unfolding days_component hours_component minutes_component seconds_component
    by (simp add: algebra_simps)
qed

lemma formatTimeRemaining_by_tier:
  assumes "0 < ms"
  shows "formatTimeRemaining ms isBeforeStart =
     (let prefix = (if isBeforeStart then opensPrefix else closesPrefix);
          d = ms div 86400000;
          h = (ms mod 86400000) div 3600000;
          m = (ms mod 3600000) div 60000;
          s = (ms mod 60000) div 1000
      in if 86400000 \<le> ms
         then prefix @ numToString d @ ''d '' @ numToString h @ ''h '' @ numToString m @ ''m''
         else if 3600000 \<le> ms
         then prefix @ numToString h @ ''h '' @ numToString m @ ''m''
         else if 60000 \<le> ms
         then prefix @ numToString m @ ''m '' @ numToString s @ ''s''
         else prefix @ numToString s @ ''s'')"
proof -
  let ?ts = "ms div 1000"
  have d: "(0 < ?ts div 86400) = (86400000 \<le> ms)"
    unfolding days_component [symmetric] using assms by (simp add: pos_imp_zdiv_pos_iff)
  have h: "ms < 86400000 \<Longrightarrow> (0 < (?ts mod 86400) div 3600) = (3600000 \<le> ms)"
    unfolding hours_component [symmetric] using assms by (simp add: pos_imp_zdiv_pos_iff)
  have m: "ms < 3600000 \<Longrightarrow> (0 < (?ts mod 3600) div 60) = (60000 \<le> ms)"
    unfolding minutes_component [symmetric] using assms by (simp add: pos_imp_zdiv_pos_iff)
  show ?thesis
    using assms d h m
    by (simp add: formatTimeRemaining_def Let_def days_component hours_component
        minutes_component seconds_component)
qed

text \<open>
  Claim C3, as the code has it. The table of the specification gives the outputs without
  the words the code puts around them: the code returns \<open>PORTAL OPENING SOON...\<close> and
  \<open>PORTAL CLOSED\<close> for zero, and puts \<open>PORTAL OPENS IN:\<close> and a line break before every
  countdown. So none of the five outputs equals the quoted string of the table.
\<close>

theorem formatTimeRemaining_table_counterexample:
  "formatTimeRemaining 90000 True \<noteq> ''1m 30s''
   \<and> formatTimeRemaining 3700000 True \<noteq> ''1h 1m''
   \<and> formatTimeRemaining 0 True \<noteq> ''OPENING SOON''
   \<and> formatTimeRemaining 0 False \<noteq> ''CLOSED''
   \<and> formatTimeRemaining 90061000 True \<noteq> ''1d 1h 1m''"
  by (simp add: formatTimeRemaining_def Let_def numToString_def showNat.simps digitChar_def
      opensPrefix_def)

text \<open>
  Claim C3, amended: on the five inputs of the table the formatter returns the table's
  countdown after the prefix \<open>PORTAL OPENS IN:\<close> and a line break, and for zero
  milliseconds \<open>PORTAL OPENING SOON...\<close> before the window and \<open>PORTAL CLOSED\<close> after it.
\<close>

theorem formatTimeRemaining_table:
  "formatTimeRemaining 90000 True = ''PORTAL OPENS IN:'' @ [CHR 0x0A] @ ''1m 30s''
   \<and> formatTimeRemaining 3700000 True = ''PORTAL OPENS IN:'' @ [CHR 0x0A] @ ''1h 1m''
   \<and> formatTimeRemaining 0 True = ''PORTAL OPENING SOON...''
   \<and> formatTimeRemaining 0 False = ''PORTAL CLOSED''
   \<and> formatTimeRemaining 90061000 True = ''PORTAL OPENS IN:'' @ [CHR 0x0A] @ ''1d 1h 1m''"
  by (simp add: formatTimeRemaining_def Let_def numToString_def showNat.simps digitChar_def
      opensPrefix_def)

text \<open>
  Claim C4: for a positive remaining time the displayed components are the floored
  quotients of the remaining time (days, then hours within the day, minutes within the
  hour, seconds within the minute); together they never exceed the remaining time and
  fall short of it by less than a second. From one day on the formatter shows days, hours
  and minutes; from one hour on hours and minutes; from one minute on minutes and seconds;
  below one minute seconds only.
\<close>

theorem formatTimeRemaining_tiers:
  assumes "0 < ms"
  shows "formatTimeRemaining ms isBeforeStart =
     (let prefix = (if isBeforeStart then ''PORTAL OPENS IN:'' @ [CHR 0x0A]
                    else ''PORTAL CLOSES IN:'' @ [CHR 0x0A]);
          d = ms div 86400000;
          h = (ms mod 86400000) div 3600000;
          m = (ms mod 3600000) div 60000;
          s = (ms mod 60000) div 1000
      in if 86400000 \<le> ms
         then prefix @ numToString d @ ''d '' @ numToString h @ ''h '' @ numToString m @ ''m''
         else if 3600000 \<le> ms
         then prefix @ numToString h @ ''h '' @ numToString m @ ''m''
         else if 60000 \<le> ms
         then prefix @ numToString m @ ''m '' @ numToString s @ ''s''
         else prefix @ numToString s @ ''s'')
   \<and> (ms div 86400000) * 86400000 + ((ms mod 86400000) div 3600000) * 3600000
       + ((ms mod 3600000) div 60000) * 60000 + ((ms mod 60000) div 1000) * 1000 \<le> ms
   \<and> ms < (ms div 86400000) * 86400000 + ((ms mod 86400000) div 3600000) * 3600000
       + ((ms mod 3600000) div 60000) * 60000 + ((ms mod 60000) div 1000) * 1000 + 1000"
proof (intro conjI)
  show "formatTimeRemaining ms isBeforeStart =
     (let prefix = (if isBeforeStart then ''PORTAL OPENS IN:'' @ [CHR 0x0A]
                    else ''PORTAL CLOSES IN:'' @ [CHR 0x0A]);
          d = ms div 86400000;
          h = (ms mod 86400000) div 3600000;
          m = (ms mod 3600000) div 60000;
          s = (ms mod 60000) div 1000
      in if 86400000 \<le> ms
         then prefix @ numToString d @ ''d '' @ numToString h @ ''h '' @ numToString m @ ''m''
         else if 3600000 \<le> ms
         then prefix @ numToString h @ ''h '' @ numToString m @ ''m''
         else if 60000 \<le> ms
         then prefix @ numToString m @ ''m '' @ numToString s @ ''s''
         else prefix @ numToString s @ ''s'')"
    using formatTimeRemaining_by_tier [OF assms, of isBeforeStart]
    unfolding opensPrefix_def closesPrefix_def .
next
  have "0 \<le> ms mod 1000" by simp
  then show "(ms div 86400000) * 86400000 + ((ms mod 86400000) div 3600000) * 3600000
       + ((ms mod 3600000) div 60000) * 60000 + ((ms mod 60000) div 1000) * 1000 \<le> ms"
    unfolding components_sum [of ms] by linarith
next
  have "ms mod 1000 < 1000" by simp
  then show "ms < (ms div 86400000) * 86400000 + ((ms mod 86400000) div 3600000) * 3600000
       + ((ms mod 3600000) div 60000) * 60000 + ((ms mod 60000) div 1000) * 1000 + 1000"
    unfolding components_sum [of ms] by linarith
qed

theorem formatTimeRemaining_tiers_witness:
  "(0::int) < 5400999
   \<and> formatTimeRemaining 5400999 False = ''PORTAL CLOSES IN:'' @ [CHR 0x0A] @ ''1h 30m''
   \<and> formatTimeRemaining 59999 True = ''PORTAL OPENS IN:'' @ [CHR 0x0A] @ ''59s''"
proof -
  have a: "(0::int) < 5400999" and b: "(0::int) < 59999" by simp_all
  have n: "numToString 1 = ''1''" "numToString 30 = ''30''" "numToString 59 = ''59''"
    by (simp_all add: numToString_def showNat.simps digitChar_def)
  have "formatTimeRemaining 5400999 False = ''PORTAL CLOSES IN:'' @ [CHR 0x0A] @ ''1h 30m''"
    using conjunct1 [OF formatTimeRemaining_tiers [OF a, of False]] by (simp add: n)
  moreover
  have "formatTimeRemaining 59999 True = ''PORTAL OPENS IN:'' @ [CHR 0x0A] @ ''59s''"
    using conjunct1 [OF formatTimeRemaining_tiers [OF b, of True]] by (simp add: n)
  ultimately show ?thesis by simp
qed

text \<open>
  Claim C10: a remaining time strictly between 0 and 1000 milliseconds is shown as
  \<open>0s\<close> after the prefix of the direction, not as the message for no time remaining.
\<close>

theorem formatTimeRemaining_below_one_second:
  assumes "0 < ms" and "ms < 1000"
  shows "formatTimeRemaining ms isBeforeStart =
           (if isBeforeStart then ''PORTAL OPENS IN:'' @ [CHR 0x0A] @ ''0s''
            else ''PORTAL CLOSES IN:'' @ [CHR 0x0A] @ ''0s'')
         \<and> formatTimeRemaining ms isBeforeStart \<noteq> ''PORTAL OPENING SOON...''
         \<and> formatTimeRemaining ms isBeforeStart \<noteq> ''PORTAL CLOSED''"
proof -
  have z: "numToString 0 = ''0''"
    by (simp add: numToString_def showNat.simps digitChar_def)
  have "formatTimeRemaining ms isBeforeStart =
           (if isBeforeStart then opensPrefix else closesPrefix) @ ''0s''"
    using assms by (simp add: formatTimeRemaining_def Let_def z)
  then show ?thesis by (simp add: opensPrefix_def closesPrefix_def)
qed

theorem formatTimeRemaining_below_one_second_witness:
  "(0::int) < 999 \<and> (999::int) < 1000
   \<and> formatTimeRemaining 999 True = ''PORTAL OPENS IN:'' @ [CHR 0x0A] @ ''0s''
   \<and> formatTimeRemaining 1 False = ''PORTAL CLOSES IN:'' @ [CHR 0x0A] @ ''0s''"
  using formatTimeRemaining_below_one_second [of 999 True]
    formatTimeRemaining_below_one_second [of 1 False]
  by simp

section \<open>Properties of the clock/window evaluator\<close>

text \<open>
  Claim C2, as stated, leaves out the switch \<open>ENABLE_TIMED_LAUNCH\<close>: with the timed
  launch switched off and no shutdown, the evaluator answers active before the start of an
  open-ended window.
\<close>

theorem shouldPortalBeActive_counterexample:
  "\<not> ROCKSCAPE_PORTAL_SHUTDOWN
        \<lparr> ROCKSCAPE_PORTAL_SHUTDOWN = False, ENABLE_TIMED_LAUNCH = False,
          LAUNCH_START_TIME = 100, LAUNCH_END_TIME = 0 \<rparr>
   \<and> LAUNCH_END_TIME
        \<lparr> ROCKSCAPE_PORTAL_SHUTDOWN = False, ENABLE_TIMED_LAUNCH = False,
          LAUNCH_START_TIME = 100, LAUNCH_END_TIME = 0 \<rparr> = 0
   \<and> shouldPortalBeActive
        \<lparr> ROCKSCAPE_PORTAL_SHUTDOWN = False, ENABLE_TIMED_LAUNCH = False,
          LAUNCH_START_TIME = 100, LAUNCH_END_TIME = 0 \<rparr> 50
   \<and> \<not> LAUNCH_START_TIME
        \<lparr> ROCKSCAPE_PORTAL_SHUTDOWN = False, ENABLE_TIMED_LAUNCH = False,
          LAUNCH_START_TIME = 100, LAUNCH_END_TIME = 0 \<rparr> \<le> 50"
  by (simp add: shouldPortalBeActive_def)

text \<open>
  Claim C2, amended: for every configuration and every current time, the evaluator
  answers inactive when the shutdown override is set; otherwise active when the timed
  launch is switched off; otherwise, with an open-ended window (end time 0), active
  exactly from the start time on; otherwise active exactly when the current time is at
  or after the start and before the end.
\<close>

theorem shouldPortalBeActive_cases:
  "(ROCKSCAPE_PORTAL_SHUTDOWN cfg \<longrightarrow> \<not> shouldPortalBeActive cfg now)
   \<and> (\<not> ROCKSCAPE_PORTAL_SHUTDOWN cfg \<and> \<not> ENABLE_TIMED_LAUNCH cfg
        \<longrightarrow> shouldPortalBeActive cfg now)
   \<and> (\<not> ROCKSCAPE_PORTAL_SHUTDOWN cfg \<and> ENABLE_TIMED_LAUNCH cfg \<and> LAUNCH_END_TIME cfg = 0
        \<longrightarrow> shouldPortalBeActive cfg now = (LAUNCH_START_TIME cfg \<le> now))
   \<and> (\<not> ROCKSCAPE_PORTAL_SHUTDOWN cfg \<and> ENABLE_TIMED_LAUNCH cfg \<and> LAUNCH_END_TIME cfg \<noteq> 0
        \<longrightarrow> shouldPortalBeActive cfg now
             = (LAUNCH_START_TIME cfg \<le> now \<and> now < LAUNCH_END_TIME cfg))"
  by (simp add: shouldPortalBeActive_def)

theorem shouldPortalBeActive_cases_witness:
  "\<not> shouldPortalBeActive
        \<lparr> ROCKSCAPE_PORTAL_SHUTDOWN = True, ENABLE_TIMED_LAUNCH = True,
          LAUNCH_START_TIME = 100, LAUNCH_END_TIME = 0 \<rparr> 150
   \<and> shouldPortalBeActive
        \<lparr> ROCKSCAPE_PORTAL_SHUTDOWN = False, ENABLE_TIMED_LAUNCH = False,
          LAUNCH_START_TIME = 100, LAUNCH_END_TIME = 200 \<rparr> 250
   \<and> shouldPortalBeActive
        \<lparr> ROCKSCAPE_PORTAL_SHUTDOWN = False, ENABLE_TIMED_LAUNCH = True,
          LAUNCH_START_TIME = 100, LAUNCH_END_TIME = 0 \<rparr> 100
   \<and> \<not> shouldPortalBeActive
        \<lparr> ROCKSCAPE_PORTAL_SHUTDOWN = False, ENABLE_TIMED_LAUNCH = True,
          LAUNCH_START_TIME = 100, LAUNCH_END_TIME = 0 \<rparr> 99
   \<and> shouldPortalBeActive
        \<lparr> ROCKSCAPE_PORTAL_SHUTDOWN = False, ENABLE_TIMED_LAUNCH = True,
          LAUNCH_START_TIME = 100, LAUNCH_END_TIME = 200 \<rparr> 199
   \<and> \<not> shouldPortalBeActive
        \<lparr> ROCKSCAPE_PORTAL_SHUTDOWN = False, ENABLE_TIMED_LAUNCH = True,
          LAUNCH_START_TIME = 100, LAUNCH_END_TIME = 200 \<rparr> 200"
  using
    shouldPortalBeActive_cases [of "\<lparr> ROCKSCAPE_PORTAL_SHUTDOWN = True,
      ENABLE_TIMED_LAUNCH = True, LAUNCH_START_TIME = 100, LAUNCH_END_TIME = 0 \<rparr>" 150]
    shouldPortalBeActive_cases [of "\<lparr> ROCKSCAPE_PORTAL_SHUTDOWN = False,
      ENABLE_TIMED_LAUNCH = False, LAUNCH_START_TIME = 100, LAUNCH_END_TIME = 200 \<rparr>" 250]
    shouldPortalBeActive_cases [of "\<lparr> ROCKSCAPE_PORTAL_SHUTDOWN = False,
      ENABLE_TIMED_LAUNCH = True, LAUNCH_START_TIME = 100, LAUNCH_END_TIME = 0 \<rparr>" 100]
    shouldPortalBeActive_cases [of "\<lparr> ROCKSCAPE_PORTAL_SHUTDOWN = False,
      ENABLE_TIMED_LAUNCH = True, LAUNCH_START_TIME = 100, LAUNCH_END_TIME = 0 \<rparr>" 99]
    shouldPortalBeActive_cases [of "\<lparr> ROCKSCAPE_PORTAL_SHUTDOWN = False,
      ENABLE_TIMED_LAUNCH = True, LAUNCH_START_TIME = 100, LAUNCH_END_TIME = 200 \<rparr>" 199]
    shouldPortalBeActive_cases [of "\<lparr> ROCKSCAPE_PORTAL_SHUTDOWN = False,
      ENABLE_TIMED_LAUNCH = True, LAUNCH_START_TIME = 100, LAUNCH_END_TIME = 200 \<rparr>" 200]
  by simp

section \<open>Properties of the zone tests\<close>

text \<open>
  Claim C8: each of the three zone tests of the scene is a box test, one comparison per
  axis of the distance from the zone's centre with half the zone's size. A point at
  exactly half the size from the centre on every axis is inside; a point one unit
  further than half the size on some axis is outside, wherever it is on the other axes.
  The zones are kersplat zone 1 (centre (168, 0, -24), size 140 x 1 x 160), kersplat
  zone 2 (centre (168, 12, -24), size 50 x 1 x 50) and the instant-teleport zone
  (centre (168.8, 22, -32), size 8 x 8 x 8).
\<close>

theorem zone_containment_inclusive_box:
  "inZone1 p = (\<bar>vx p - 168\<bar> \<le> 70 \<and> \<bar>vy p - 0\<bar> \<le> 1 / 2 \<and> \<bar>vz p - (- 24)\<bar> \<le> 80)
   \<and> (\<bar>vx p - 168\<bar> = 70 \<and> \<bar>vy p - 0\<bar> = 1 / 2 \<and> \<bar>vz p - (- 24)\<bar> = 80 \<longrightarrow> inZone1 p)
   \<and> (\<bar>vx p - 168\<bar> = 70 + 1 \<or> \<bar>vy p - 0\<bar> = 1 / 2 + 1 \<or> \<bar>vz p - (- 24)\<bar> = 80 + 1
        \<longrightarrow> \<not> inZone1 p)
   \<and> inZone2 p = (\<bar>vx p - 168\<bar> \<le> 25 \<and> \<bar>vy p - 12\<bar> \<le> 1 / 2 \<and> \<bar>vz p - (- 24)\<bar> \<le> 25)
   \<and> (\<bar>vx p - 168\<bar> = 25 \<and> \<bar>vy p - 12\<bar> = 1 / 2 \<and> \<bar>vz p - (- 24)\<bar> = 25 \<longrightarrow> inZone2 p)
   \<and> (\<bar>vx p - 168\<bar> = 25 + 1 \<or> \<bar>vy p - 12\<bar> = 1 / 2 + 1 \<or> \<bar>vz p - (- 24)\<bar> = 25 + 1
        \<longrightarrow> \<not> inZone2 p)
   \<and> inInstantTeleportZone p
        = (\<bar>vx p - 1688 / 10\<bar> \<le> 4 \<and> \<bar>vy p - 22\<bar> \<le> 4 \<and> \<bar>vz p - (- 32)\<bar> \<le> 4)
   \<and> (\<bar>vx p - 1688 / 10\<bar> = 4 \<and> \<bar>vy p - 22\<bar> = 4 \<and> \<bar>vz p - (- 32)\<bar> = 4
        \<longrightarrow> inInstantTeleportZone p)
   \<and> (\<bar>vx p - 1688 / 10\<bar> = 4 + 1 \<or> \<bar>vy p - 22\<bar> = 4 + 1 \<or> \<bar>vz p - (- 32)\<bar> = 4 + 1
        \<longrightarrow> \<not> inInstantTeleportZone p)"
proof -
  have z1: "inZone1 p = (\<bar>vx p - 168\<bar> \<le> 70 \<and> \<bar>vy p - 0\<bar> \<le> 1 / 2 \<and> \<bar>vz p - (- 24)\<bar> \<le> 80)"
    by (simp add: inZone1_def Let_def)
  have z2: "inZone2 p = (\<bar>vx p - 168\<bar> \<le> 25 \<and> \<bar>vy p - 12\<bar> \<le> 1 / 2 \<and> \<bar>vz p - (- 24)\<bar> \<le> 25)"
    by (simp add: inZone2_def Let_def)
  have z3: "inInstantTeleportZone p
        = (\<bar>vx p - 1688 / 10\<bar> \<le> 4 \<and> \<bar>vy p - 22\<bar> \<le> 4 \<and> \<bar>vz p - (- 32)\<bar> \<le> 4)"
    by (simp add: inInstantTeleportZone_def Let_def)
  show ?thesis
    unfolding z1 z2 z3 by (intro conjI impI; linarith?)
qed

theorem zone_containment_inclusive_box_witness:
  "inZone1 (Vector3 238 (1 / 2) 56) \<and> \<not> inZone1 (Vector3 239 0 (- 24))
   \<and> \<not> inZone1 (Vector3 168 (3 / 2) (- 24))
   \<and> inZone2 (Vector3 143 (23 / 2) (- 49)) \<and> \<not> inZone2 (Vector3 168 12 2)
   \<and> inInstantTeleportZone (Vector3 (1728 / 10) 18 (- 28))
   \<and> \<not> inInstantTeleportZone (Vector3 (1688 / 10) 27 (- 32))"
  using zone_containment_inclusive_box [of "Vector3 238 (1 / 2) 56"]
    zone_containment_inclusive_box [of "Vector3 239 0 (- 24)"]
    zone_containment_inclusive_box [of "Vector3 168 (3 / 2) (- 24)"]
    zone_containment_inclusive_box [of "Vector3 143 (23 / 2) (- 49)"]
    zone_containment_inclusive_box [of "Vector3 168 12 2"]
    zone_containment_inclusive_box [of "Vector3 (1728 / 10) 18 (- 28)"]
    zone_containment_inclusive_box [of "Vector3 (1688 / 10) 27 (- 32)"]
  by simp

section \<open>Properties of the polling interval\<close>

text \<open>
  Claim C5, as stated, puts the thresholds strictly below 5 seconds, 10 minutes and one
  hour and gives every tick to any time below 5 seconds. The code compares with \<open><=\<close>,
  so at exactly 5000 ms it still polls every tick (the claim's tiers give 1 second
  there), and it has a branch of its own for a time to the event of zero or less, which
  polls every second (the claim's tiers give every tick there).
\<close>

theorem checkInterval_counterexample:
  "checkInterval False 5000 \<noteq> 1 \<and> checkInterval False 600000 \<noteq> 10
   \<and> checkInterval False 3600000 \<noteq> 60 \<and> checkInterval False 0 \<noteq> 0"
  by (simp add: checkInterval_def)

text \<open>
  Claim C5, amended: the interval is 0 (every tick) whenever the evaluator says active
  while the machine is still inactive; otherwise it depends on the time to the next event
  alone: zero or less (the event is reached or there is none) gives 1 second, at most 5
  seconds gives every tick, at most 10 minutes gives 1 second, at most one hour gives 10
  seconds, and more gives 60 seconds. In the countdown system a frame on the fast path is
  never skipped and activates the portal; any other frame is skipped exactly when the
  time since the last check, with this frame's delta added, is below the interval.
\<close>

theorem checkInterval_tiers:
  "(needsImmediateCheck \<longrightarrow> checkInterval needsImmediateCheck t = 0)
   \<and> (\<not> needsImmediateCheck \<and> t \<le> 0 \<longrightarrow> checkInterval needsImmediateCheck t = 1)
   \<and> (\<not> needsImmediateCheck \<and> 0 < t \<and> t \<le> 5000
        \<longrightarrow> checkInterval needsImmediateCheck t = 0)
   \<and> (\<not> needsImmediateCheck \<and> 5000 < t \<and> t \<le> 600000
        \<longrightarrow> checkInterval needsImmediateCheck t = 1)
   \<and> (\<not> needsImmediateCheck \<and> 600000 < t \<and> t \<le> 3600000
        \<longrightarrow> checkInterval needsImmediateCheck t = 10)
   \<and> (\<not> needsImmediateCheck \<and> 3600000 < t \<longrightarrow> checkInterval needsImmediateCheck t = 60)
   \<and> (shouldPortalBeActive cfg now2 \<and> \<not> isPortalActive s
        \<longrightarrow> isPortalActive (countdownSystem cfg dt now now2 playerPos s)
            \<and> timeSinceLastCheck (countdownSystem cfg dt now now2 playerPos s) = 0)
   \<and> (\<not> (shouldPortalBeActive cfg now2 \<and> \<not> isPortalActive s)
        \<longrightarrow> countdownSystem cfg dt now now2 playerPos s
             = (if timeSinceLastCheck s + dt < checkInterval False (snd (countdownAt cfg now))
                then s \<lparr> timeSinceLastCheck := timeSinceLastCheck s + dt \<rparr>
                else portalTransition (shouldPortalBeActive cfg now2)
                       (if fst (countdownAt cfg now) \<noteq> countdownText s
                        then s \<lparr> timeSinceLastCheck := 0,
                                 countdownText := fst (countdownAt cfg now),
                                 countdownShapeText := fst (countdownAt cfg now) \<rparr>
                        else s \<lparr> timeSinceLastCheck := 0 \<rparr>)))"
proof -
  have fast: "isPortalActive (countdownSystem cfg dt now now2 playerPos s)
      \<and> timeSinceLastCheck (countdownSystem cfg dt now now2 playerPos s) = 0"
    if "shouldPortalBeActive cfg now2" "\<not> isPortalActive s"
    using that
    by (simp add: countdownSystem_def Let_def instantTeleportCheck_def portalTransition_def)
  have slow: "countdownSystem cfg dt now now2 playerPos s
       = (if timeSinceLastCheck s + dt < checkInterval False (snd (countdownAt cfg now))
          then s \<lparr> timeSinceLastCheck := timeSinceLastCheck s + dt \<rparr>
          else portalTransition (shouldPortalBeActive cfg now2)
                 (if fst (countdownAt cfg now) \<noteq> countdownText s
                  then s \<lparr> timeSinceLastCheck := 0,
                           countdownText := fst (countdownAt cfg now),
                           countdownShapeText := fst (countdownAt cfg now) \<rparr>
                  else s \<lparr> timeSinceLastCheck := 0 \<rparr>))"
    if "\<not> (shouldPortalBeActive cfg now2 \<and> \<not> isPortalActive s)"
    using that
    by (auto simp add: countdownSystem_def Let_def instantTeleportCheck_def)
  have tiers: "(needsImmediateCheck \<longrightarrow> checkInterval needsImmediateCheck t = 0)
   \<and> (\<not> needsImmediateCheck \<and> t \<le> 0 \<longrightarrow> checkInterval needsImmediateCheck t = 1)
   \<and> (\<not> needsImmediateCheck \<and> 0 < t \<and> t \<le> 5000
        \<longrightarrow> checkInterval needsImmediateCheck t = 0)
   \<and> (\<not> needsImmediateCheck \<and> 5000 < t \<and> t \<le> 600000
        \<longrightarrow> checkInterval needsImmediateCheck t = 1)
   \<and> (\<not> needsImmediateCheck \<and> 600000 < t \<and> t \<le> 3600000
        \<longrightarrow> checkInterval needsImmediateCheck t = 10)
   \<and> (\<not> needsImmediateCheck \<and> 3600000 < t \<longrightarrow> checkInterval needsImmediateCheck t = 60)"
    by (simp add: checkInterval_def)
  show ?thesis using fast slow tiers by blast
qed

theorem checkInterval_tiers_witness:
  "checkInterval True 7200000 = 0
   \<and> checkInterval False 0 = 1
   \<and> checkInterval False 5000 = 0
   \<and> checkInterval False 5001 = 1
   \<and> checkInterval False 600001 = 10
   \<and> checkInterval False 3600001 = 60
   \<and> isPortalActive
        (countdownSystem closedWindow 0 150000 150000 Zero (main closedWindow 50000 50000))
   \<and> countdownSystem closedWindow (1 / 2) 50000 50000 Zero (main closedWindow 50000 50000)
       = (main closedWindow 50000 50000) \<lparr> timeSinceLastCheck := 1 / 2 \<rparr>"
proof -
  let ?s = "main closedWindow 50000 50000"
  have s: "\<not> isPortalActive ?s" "timeSinceLastCheck ?s = 0"
    by (simp_all add: main_def Let_def shouldPortalBeActive_def closedWindow_def)
  have opened: "shouldPortalBeActive closedWindow 150000"
    and waiting: "\<not> shouldPortalBeActive closedWindow 50000"
    and far: "snd (countdownAt closedWindow 50000) = 50000"
    by (simp_all add: shouldPortalBeActive_def countdownAt_def Let_def closedWindow_def)
  have tiers: "checkInterval True 7200000 = 0" "checkInterval False 0 = 1"
    "checkInterval False 5000 = 0" "checkInterval False 5001 = 1"
    "checkInterval False 600001 = 10" "checkInterval False 3600001 = 60"
    "checkInterval False 50000 = 1"
    using checkInterval_tiers [where needsImmediateCheck = True and t = 7200000]
      checkInterval_tiers [where needsImmediateCheck = False and t = 0]
      checkInterval_tiers [where needsImmediateCheck = False and t = 5000]
      checkInterval_tiers [where needsImmediateCheck = False and t = 5001]
      checkInterval_tiers [where needsImmediateCheck = False and t = 600001]
      checkInterval_tiers [where needsImmediateCheck = False and t = 3600001]
      checkInterval_tiers [where needsImmediateCheck = False and t = 50000]
    by simp_all
  have fast: "isPortalActive (countdownSystem closedWindow 0 150000 150000 Zero ?s)"
    using checkInterval_tiers [where cfg = closedWindow and ?now2.0 = 150000 and s = ?s
        and dt = 0 and now = 150000 and playerPos = Zero] opened s(1)
    by simp
  have skipped: "countdownSystem closedWindow (1 / 2) 50000 50000 Zero ?s
      = ?s \<lparr> timeSinceLastCheck := 1 / 2 \<rparr>"
    using checkInterval_tiers [where cfg = closedWindow and ?now2.0 = 50000 and s = ?s
        and dt = "1 / 2" and now = 50000 and playerPos = Zero] waiting s(2) far tiers(7)
    by simp
  show ?thesis using tiers fast skipped by simp
qed

section \<open>Properties of the portal state machine\<close>

lemma portalTransition_triggerAdded:
  "triggerAdded (portalTransition b s)
     = (triggerAdded s \<or> (\<not> isPortalActive s \<and> isPortalActive (portalTransition b s)))"
  by (simp add: portalTransition_def Let_def)

lemma portalTransition_callbacks:
  "triggerZoneCallbacks (portalTransition b s)
     = triggerZoneCallbacks s
       + (if \<not> triggerAdded s \<and> \<not> isPortalActive s \<and> isPortalActive (portalTransition b s)
          then 1 else 0)"
  by (simp add: portalTransition_def Let_def)

lemma instantTeleportCheck_fields:
  "triggerAdded (instantTeleportCheck n p s) = triggerAdded s"
  "isPortalActive (instantTeleportCheck n p s) = isPortalActive s"
  "triggerZoneCallbacks (instantTeleportCheck n p s) = triggerZoneCallbacks s"
  by (simp_all add: instantTeleportCheck_def)

lemma countdownSystem_shape:
  "\<exists>b s'. (countdownSystem cfg dt now now2 p s = portalTransition b s'
            \<or> countdownSystem cfg dt now now2 p s = s')
          \<and> triggerAdded s' = triggerAdded s \<and> isPortalActive s' = isPortalActive s
          \<and> triggerZoneCallbacks s' = triggerZoneCallbacks s"
proof (cases "\<not> (shouldPortalBeActive cfg now2 \<and> \<not> isPortalActive s) \<and>
    timeSinceLastCheck s + dt
      < checkInterval (shouldPortalBeActive cfg now2 \<and> \<not> isPortalActive s)
          (snd (countdownAt cfg now))")
  case True
  then have "countdownSystem cfg dt now now2 p s
      = s \<lparr> timeSinceLastCheck := timeSinceLastCheck s + dt \<rparr>"
    by (simp add: countdownSystem_def Let_def)
  then show ?thesis
    by (intro exI [of _ True] exI [of _ "s \<lparr> timeSinceLastCheck := timeSinceLastCheck s + dt \<rparr>"])
      simp
next
  case False
  let ?s2 = "if fst (countdownAt cfg now) \<noteq> countdownText s
             then s \<lparr> timeSinceLastCheck := 0,
                      countdownText := fst (countdownAt cfg now),
                      countdownShapeText := fst (countdownAt cfg now) \<rparr>
             else s \<lparr> timeSinceLastCheck := 0 \<rparr>"
  let ?s3 = "instantTeleportCheck (shouldPortalBeActive cfg now2 \<and> \<not> isPortalActive s) p ?s2"
  from False have "countdownSystem cfg dt now now2 p s
      = portalTransition (shouldPortalBeActive cfg now2) ?s3"
    by (auto simp add: countdownSystem_def Let_def)
  moreover have "triggerAdded ?s3 = triggerAdded s" "isPortalActive ?s3 = isPortalActive s"
    "triggerZoneCallbacks ?s3 = triggerZoneCallbacks s"
    by (simp_all add: instantTeleportCheck_fields)
  ultimately show ?thesis by blast
qed

lemma countdownSystem_triggerAdded:
  "triggerAdded (countdownSystem cfg dt now now2 p s)
     = (triggerAdded s
        \<or> (\<not> isPortalActive s \<and> isPortalActive (countdownSystem cfg dt now now2 p s)))"
proof -
  obtain b s' where "countdownSystem cfg dt now now2 p s = portalTransition b s'
      \<or> countdownSystem cfg dt now now2 p s = s'"
    and "triggerAdded s' = triggerAdded s" and "isPortalActive s' = isPortalActive s"
    and "triggerZoneCallbacks s' = triggerZoneCallbacks s"
    using countdownSystem_shape by blast
  then show ?thesis
    using portalTransition_triggerAdded [of b s'] by auto
qed

lemma countdownSystem_callbacks:
  "triggerZoneCallbacks (countdownSystem cfg dt now now2 p s)
     = triggerZoneCallbacks s
       + (if \<not> triggerAdded s \<and> \<not> isPortalActive s
             \<and> isPortalActive (countdownSystem cfg dt now now2 p s)
          then 1 else 0)"
proof -
  obtain b s' where "countdownSystem cfg dt now now2 p s = portalTransition b s'
      \<or> countdownSystem cfg dt now now2 p s = s'"
    and "triggerAdded s' = triggerAdded s" and "isPortalActive s' = isPortalActive s"
    and "triggerZoneCallbacks s' = triggerZoneCallbacks s"
    using countdownSystem_shape by blast
  then show ?thesis
    using portalTransition_callbacks [of b s'] by auto
qed

lemma portalStep_triggerAdded:
  "triggerAdded (portalStep cfg e s)
     = (triggerAdded s \<or> (\<not> isPortalActive s \<and> isPortalActive (portalStep cfg e s)))"
  by (cases e) (auto simp add: countdownSystem_triggerAdded)

lemma portalStep_callbacks:
  "triggerZoneCallbacks (portalStep cfg e s)
     = triggerZoneCallbacks s
       + (if \<not> triggerAdded s \<and> \<not> isPortalActive s \<and> isPortalActive (portalStep cfg e s)
          then 1 else 0)"
  by (cases e) (simp_all add: countdownSystem_callbacks)

lemma portalRun_triggerAdded:
  "triggerAdded (portalRun cfg es s) = (triggerAdded s \<or> 0 < activationEdges cfg es s)"
proof (induction es arbitrary: s)
  case Nil
  show ?case by simp
next
  case (Cons e es)
  show ?case
    using Cons.IH [of "portalStep cfg e s"] portalStep_triggerAdded [of cfg e s]
    by auto
qed

lemma portalRun_callbacks:
  "triggerZoneCallbacks (portalRun cfg es s)
     = triggerZoneCallbacks s
       + (if \<not> triggerAdded s \<and> 0 < activationEdges cfg es s then 1 else 0)"
proof (induction es arbitrary: s)
  case Nil
  show ?case by simp
next
  case (Cons e es)
  show ?case
    using Cons.IH [of "portalStep cfg e s"] portalStep_triggerAdded [of cfg e s]
      portalStep_callbacks [of cfg e s]
    by auto
qed

lemma portalRun_append:
  "portalRun cfg (es @ es') s = portalRun cfg es' (portalRun cfg es s)"
  by (induction es arbitrary: s) simp_all

text \<open>
  Claim C1: when the portal is inactive at construction, then after any run of host
  events the number of enter-callbacks registered on the teleport trigger zone is 1 if
  the portal has gone from inactive to active at least once and 0 otherwise, however
  often it has been activated; \<open>triggerAdded\<close> is set exactly from the first such edge on,
  and it stays set through any continuation of the run.
\<close>

theorem trigger_registered_once_from_inactive:
  assumes "\<not> shouldPortalBeActive cfg now"
  shows "triggerZoneCallbacks (portalRun cfg es (main cfg now now2))
           = (if 0 < activationEdges cfg es (main cfg now now2) then 1 else 0)
         \<and> triggerAdded (portalRun cfg es (main cfg now now2))
           = (0 < activationEdges cfg es (main cfg now now2))
         \<and> (triggerAdded (portalRun cfg es (main cfg now now2))
              \<longrightarrow> triggerAdded (portalRun cfg (es @ es') (main cfg now now2))
                  \<and> triggerZoneCallbacks (portalRun cfg (es @ es') (main cfg now now2)) = 1)"
proof -
  let ?s0 = "main cfg now now2"
  have init: "\<not> triggerAdded ?s0" "triggerZoneCallbacks ?s0 = 0"
    using assms by (simp_all add: main_def Let_def)
  have a: "triggerZoneCallbacks (portalRun cfg es ?s0)
           = (if 0 < activationEdges cfg es ?s0 then 1 else 0)"
    using portalRun_callbacks [of cfg es ?s0] init by simp
  have b: "triggerAdded (portalRun cfg es ?s0) = (0 < activationEdges cfg es ?s0)"
    using portalRun_triggerAdded [of cfg es ?s0] init by simp
  have c: "triggerAdded (portalRun cfg (es @ es') ?s0)
           \<and> triggerZoneCallbacks (portalRun cfg (es @ es') ?s0) = 1"
    if t: "triggerAdded (portalRun cfg es ?s0)"
  proof -
    have "triggerAdded (portalRun cfg (es @ es') ?s0)"
      using portalRun_triggerAdded [of cfg es' "portalRun cfg es ?s0"] t
      by (simp add: portalRun_append)
    moreover have "triggerZoneCallbacks (portalRun cfg (es @ es') ?s0) = 1"
      using portalRun_callbacks [of cfg es' "portalRun cfg es ?s0"] t a b
      by (simp add: portalRun_append)
    ultimately show ?thesis by simp
  qed
  show ?thesis using a b c by blast
qed

lemmas portal_eval =
  main_def countdownSystem_def Let_def countdownAt_def shouldPortalBeActive_def
  checkInterval_def portalTransition_def instantTeleportCheck_def inInstantTeleportZone_def
  formatTimeRemaining_def numToString_def showNat.simps digitChar_def Zero_def
  closedWindow_def closesPrefix_def opensPrefix_def

lemma openCloseOpen_edges:
  "activationEdges closedWindow openCloseOpen (main closedWindow 50000 50000) = 2"
  by (simp add: openCloseOpen_def portal_eval)

lemma closeOpen_edges:
  "activationEdges closedWindow closeOpen (main closedWindow 150000 150000) = 1"
  by (simp add: closeOpen_def portal_eval)

theorem trigger_registered_once_from_inactive_witness:
  "\<not> shouldPortalBeActive closedWindow 50000
   \<and> activationEdges closedWindow openCloseOpen (main closedWindow 50000 50000) = 2
   \<and> triggerZoneCallbacks (portalRun closedWindow openCloseOpen (main closedWindow 50000 50000)) = 1
   \<and> triggerAdded (portalRun closedWindow openCloseOpen (main closedWindow 50000 50000))
   \<and> triggerZoneCallbacks (portalRun closedWindow [] (main closedWindow 50000 50000)) = 0"
proof -
  have h: "\<not> shouldPortalBeActive closedWindow 50000"
    by (simp add: shouldPortalBeActive_def closedWindow_def)
  show ?thesis
    using h openCloseOpen_edges
      trigger_registered_once_from_inactive [OF h, of openCloseOpen 50000 "[]"]
      trigger_registered_once_from_inactive [OF h, of "[]" 50000 "[]"]
    by simp
qed

text \<open>
  Claim C9: when the portal is already active at construction, main registers the
  enter-callback on the teleport trigger zone and leaves \<open>triggerAdded\<close> unset. After any
  run the number of callbacks registered on the zone is then 2 if the portal has gone
  from inactive to active at least once in the run (it was deactivated and activated
  again), and 1 otherwise.
\<close>

theorem trigger_registered_twice_from_active:
  assumes "shouldPortalBeActive cfg now"
  shows "isPortalActive (main cfg now now2)
         \<and> \<not> triggerAdded (main cfg now now2)
         \<and> triggerZoneCallbacks (main cfg now now2) = 1
         \<and> triggerZoneCallbacks (portalRun cfg es (main cfg now now2))
           = (if 0 < activationEdges cfg es (main cfg now now2) then 2 else 1)"
proof -
  let ?s0 = "main cfg now now2"
  have init: "isPortalActive ?s0" "\<not> triggerAdded ?s0" "triggerZoneCallbacks ?s0 = 1"
    using assms by (simp_all add: main_def Let_def)
  then show ?thesis
    using portalRun_callbacks [of cfg es ?s0] by simp
qed

theorem trigger_registered_twice_from_active_witness:
  "shouldPortalBeActive closedWindow 150000
   \<and> \<not> triggerAdded (main closedWindow 150000 150000)
   \<and> triggerZoneCallbacks (main closedWindow 150000 150000) = 1
   \<and> activationEdges closedWindow closeOpen (main closedWindow 150000 150000) = 1
   \<and> triggerZoneCallbacks (portalRun closedWindow closeOpen (main closedWindow 150000 150000)) = 2"
proof -
  have h: "shouldPortalBeActive closedWindow 150000"
    by (simp add: shouldPortalBeActive_def closedWindow_def)
  show ?thesis
    using h closeOpen_edges trigger_registered_twice_from_active [OF h, of 150000 closeOpen]
    by simp
qed

section \<open>Properties of the fall-zone scanner\<close>

lemma scanner_timers_invariant:
  "(kersplatCooldown (scannerRun es scannerInit)
      \<longrightarrow> length (cooldownTimers (scannerRun es scannerInit)) = 1)
   \<and> (\<not> kersplatCooldown (scannerRun es scannerInit)
      \<longrightarrow> cooldownTimers (scannerRun es scannerInit) = [])"
proof -
  have step: "(kersplatCooldown (scannerStep e s) \<longrightarrow> length (cooldownTimers (scannerStep e s)) = 1)
      \<and> (\<not> kersplatCooldown (scannerStep e s) \<longrightarrow> cooldownTimers (scannerStep e s) = [])"
    if inv: "(kersplatCooldown s \<longrightarrow> length (cooldownTimers s) = 1)
      \<and> (\<not> kersplatCooldown s \<longrightarrow> cooldownTimers s = [])" for e s
  proof (cases e)
    case (Scan now p)
    then show ?thesis using inv by (simp add: kersplatSystem_def)
  next
    case (Timers now)
    show ?thesis
    proof (cases "kersplatCooldown s")
      case True
      then have "length (cooldownTimers s) = 1" using inv by simp
      then have "\<exists>d. cooldownTimers s = [d]"
        by (cases "cooldownTimers s") simp_all
      then show ?thesis using Timers True by (auto simp add: fireCooldownTimers_def)
    next
      case False
      then show ?thesis using inv Timers by (simp add: fireCooldownTimers_def)
    qed
  qed
  have run: "(kersplatCooldown (scannerRun es s) \<longrightarrow> length (cooldownTimers (scannerRun es s)) = 1)
      \<and> (\<not> kersplatCooldown (scannerRun es s) \<longrightarrow> cooldownTimers (scannerRun es s) = [])"
    if "(kersplatCooldown s \<longrightarrow> length (cooldownTimers s) = 1)
      \<and> (\<not> kersplatCooldown s \<longrightarrow> cooldownTimers s = [])" for s
    using that
  proof (induction es arbitrary: s)
    case Nil
    then show ?case by simp
  next
    case (Cons e es)
    show ?case using Cons.IH [OF step [OF Cons.prems]] by simp
  qed
  show ?thesis by (rule run) (simp add: scannerInit_def)
qed

lemma scanner_locked_step:
  assumes "kersplatCooldown s" and "cooldownTimers s = [due]" and "eventClock e < due"
  shows "scannerStep e s = s"
  using assms by (cases e) (simp_all add: kersplatSystem_def fireCooldownTimers_def)

lemma scanner_locked_run:
  assumes "kersplatCooldown s" and "cooldownTimers s = [due]"
    and "\<forall>e \<in> set es. eventClock e < due"
  shows "scannerRun es s = s"
  using assms
proof (induction es)
  case Nil
  show ?case by simp
next
  case (Cons e es)
  have "scannerStep e s = s"
    using scanner_locked_step [of s due e] Cons.prems by simp
  then show ?case using Cons by simp
qed

text \<open>
  Claim C7: in any state the scanner can reach, once a detection in either kersplat zone
  fires at clock \<open>t0\<close> (the scanner is not on cooldown), it performs exactly one respawn,
  and no scanner frame and no run of the timer system at a clock before \<open>t0 + 3000\<close>
  adds another, wherever the player is; the state stays as the trigger left it. A run of
  the timer system at \<open>t0 + 3000\<close> or later ends the cooldown.
\<close>

theorem cooldown_one_respawn_within_3s:
  assumes "s = scannerRun es0 scannerInit"
    and "\<not> kersplatCooldown s"
    and "inZone1 p \<or> inZone2 p"
    and "\<forall>e \<in> set es. eventClock e < t0 + 3000"
    and "t0 + 3000 \<le> t1"
  shows "scannerRespawns (kersplatSystem t0 p s) = scannerRespawns s + 1
         \<and> kersplatCooldown (kersplatSystem t0 p s)
         \<and> scannerRun es (kersplatSystem t0 p s) = kersplatSystem t0 p s
         \<and> scannerRespawns (scannerRun es (kersplatSystem t0 p s)) = scannerRespawns s + 1
         \<and> \<not> kersplatCooldown
              (fireCooldownTimers t1 (scannerRun es (kersplatSystem t0 p s)))"
proof -
  let ?s' = "kersplatSystem t0 p s"
  have empty: "cooldownTimers s = []"
    using scanner_timers_invariant [of es0] assms(1,2) by simp
  have fired: "scannerRespawns ?s' = scannerRespawns s + 1" "kersplatCooldown ?s'"
    "cooldownTimers ?s' = [t0 + 3000]"
    using assms(2,3) empty by (simp_all add: kersplatSystem_def)
  have locked: "scannerRun es ?s' = ?s'"
    using scanner_locked_run [of ?s' "t0 + 3000" es] fired assms(4) by simp
  have expired: "\<not> kersplatCooldown (fireCooldownTimers t1 ?s')"
    using fired assms(5) by (simp add: fireCooldownTimers_def)
  show ?thesis using fired locked expired by simp
qed

theorem cooldown_one_respawn_within_3s_witness:
  "\<not> kersplatCooldown scannerInit
   \<and> inZone1 (Vector3 168 0 (- 24))
   \<and> inZone2 (Vector3 168 12 (- 24))
   \<and> scannerRespawns (kersplatSystem 10000 (Vector3 168 0 (- 24)) scannerInit) = 1
   \<and> scannerRespawns
        (scannerRun [Scan 10016 (Vector3 168 0 (- 24)), Timers 11000,
                     Scan 12999 (Vector3 168 12 (- 24))]
          (kersplatSystem 10000 (Vector3 168 0 (- 24)) scannerInit)) = 1
   \<and> \<not> kersplatCooldown
        (fireCooldownTimers 13000
          (scannerRun [Scan 10016 (Vector3 168 0 (- 24)), Timers 11000,
                       Scan 12999 (Vector3 168 12 (- 24))]
            (kersplatSystem 10000 (Vector3 168 0 (- 24)) scannerInit)))"
proof -
  have a: "scannerInit = scannerRun [] scannerInit" by simp
  have b: "\<not> kersplatCooldown scannerInit" by (simp add: scannerInit_def)
  have c: "inZone1 (Vector3 168 0 (- 24)) \<or> inZone2 (Vector3 168 0 (- 24))"
    by (simp add: inZone1_def)
  have d: "\<forall>e \<in> set [Scan 10016 (Vector3 168 0 (- 24)), Timers 11000,
                     Scan 12999 (Vector3 168 12 (- 24))]. eventClock e < 10000 + 3000"
    by simp
  have e: "(10000::int) + 3000 \<le> 13000" by simp
  have z: "inZone1 (Vector3 168 0 (- 24))" "inZone2 (Vector3 168 12 (- 24))"
    "scannerRespawns scannerInit = 0"
    by (simp_all add: inZone1_def inZone2_def scannerInit_def)
  note t = cooldown_one_respawn_within_3s [OF a b c d e]
  have r1: "scannerRespawns (kersplatSystem 10000 (Vector3 168 0 (- 24)) scannerInit)
      = scannerRespawns scannerInit + 1"
    using t by blast
  have r2: "scannerRespawns
        (scannerRun [Scan 10016 (Vector3 168 0 (- 24)), Timers 11000,
                     Scan 12999 (Vector3 168 12 (- 24))]
          (kersplatSystem 10000 (Vector3 168 0 (- 24)) scannerInit))
      = scannerRespawns scannerInit + 1"
    using t by blast
  have r3: "\<not> kersplatCooldown
        (fireCooldownTimers 13000
          (scannerRun [Scan 10016 (Vector3 168 0 (- 24)), Timers 11000,
                       Scan 12999 (Vector3 168 12 (- 24))]
            (kersplatSystem 10000 (Vector3 168 0 (- 24)) scannerInit)))"
    using t by blast
  show ?thesis
    using b z r1 r2 r3 by (simp del: scannerRun.simps)
qed

section \<open>Properties of the tree camera sequence\<close>

lemma return_frame_early:
  assumes "animationType s = Some Tree" and "treeCameraPhase s = Return" and "isAnimating s"
    and "now2 < returnStartTime s + 2000"
  shows "cameraSystem now now2 p s
           = s \<lparr> treeCameraPosition :=
                   lerp (returnStartPos s) (Vector3 (vx p) (vy p + 18 / 10) (vz p))
                     (min (real_of_int (now2 - returnStartTime s) / 2000) 1) \<rparr>"
proof -
  have "real_of_int (now2 - returnStartTime s) / 2000 < 1"
    using assms(4) by simp
  then have "\<not> 1 \<le> min (real_of_int (now2 - returnStartTime s) / 2000) 1"
    by simp
  then show ?thesis
    using assms(1,2,3) by (simp add: cameraSystem_def treeFrame_def Let_def)
qed

lemma return_frame_done:
  assumes "animationType s = Some Tree" and "treeCameraPhase s = Return" and "isAnimating s"
    and "returnStartTime s + 2000 \<le> now2"
  shows "cameraSystem now now2 p s
           = s \<lparr> treeCameraPosition := Vector3 (vx p) (vy p + 18 / 10) (vz p),
                 virtualCameraEntity := None,
                 activeCinematicCamera := None,
                 isAnimating := False,
                 animationType := None,
                 treeCameraPhase := Tilt \<rparr>"
proof -
  have "real_of_int (returnStartTime s + 2000) \<le> real_of_int now2"
    using assms(4) by (simp only: of_int_le_iff)
  then have ge: "2000 \<le> real_of_int now2 - real_of_int (returnStartTime s)"
    by simp
  then have "min ((real_of_int now2 - real_of_int (returnStartTime s)) / 2000) 1 = 1"
    by simp
  then show ?thesis
    using assms(1,2,3) ge by (simp add: cameraSystem_def treeFrame_def Let_def lerp_def)
qed

lemma return_run_early:
  assumes "animationType s = Some Tree" and "treeCameraPhase s = Return" and "isAnimating s"
    and "\<forall>f \<in> set fs. fst (snd f) < returnStartTime s + 2000"
  shows "animationType (cameraRun fs s) = Some Tree
         \<and> treeCameraPhase (cameraRun fs s) = Return
         \<and> isAnimating (cameraRun fs s)
         \<and> returnStartTime (cameraRun fs s) = returnStartTime s
         \<and> virtualCameraEntity (cameraRun fs s) = virtualCameraEntity s
         \<and> activeCinematicCamera (cameraRun fs s) = activeCinematicCamera s"
  using assms
proof (induction fs arbitrary: s)
  case Nil
  then show ?case by simp
next
  case (Cons f fs)
  obtain now now2 p where f: "f = (now, now2, p)" by (cases f) auto
  let ?s' = "cameraSystem now now2 p s"
  have early: "now2 < returnStartTime s + 2000" using Cons.prems(4) f by simp
  have s': "?s' = s \<lparr> treeCameraPosition :=
                   lerp (returnStartPos s) (Vector3 (vx p) (vy p + 18 / 10) (vz p))
                     (min (real_of_int (now2 - returnStartTime s) / 2000) 1) \<rparr>"
    using return_frame_early [OF Cons.prems(1,2,3) early] .
  have "animationType ?s' = Some Tree" "treeCameraPhase ?s' = Return" "isAnimating ?s'"
    "\<forall>g \<in> set fs. fst (snd g) < returnStartTime ?s' + 2000"
    using Cons.prems unfolding s' by simp_all
  from Cons.IH [OF this] show ?case
    unfolding f by (simp add: s')
qed

text \<open>
  Claim C6: while the tree sequence is in its orbit phase, \<open>resetTreeCamera\<close> called at
  clock \<open>t0\<close> puts the sequence in the return phase at once, whatever the orbit's start
  time and progress. After that, every frame whose clock is before \<open>t0 + 2000\<close> leaves the
  sequence in the return phase with the cinematic camera still bound, and the first frame
  whose clock is at \<open>t0 + 2000\<close> or later puts the phase back to tilt, ends the animation
  and releases the main camera to the default player camera.
\<close>

theorem reset_during_orbit_returns_in_2000ms:
  assumes "animationType s = Some Tree" and "treeCameraPhase s = Orbit"
    and "\<forall>f \<in> set fs. fst (snd f) < t0 + 2000"
    and "t0 + 2000 \<le> now2"
  shows "treeCameraPhase (resetTreeCamera t0 s) = Return
         \<and> isAnimating (resetTreeCamera t0 s)
         \<and> returnStartTime (resetTreeCamera t0 s) = t0
         \<and> treeCameraPhase (cameraRun fs (resetTreeCamera t0 s)) = Return
         \<and> isAnimating (cameraRun fs (resetTreeCamera t0 s))
         \<and> virtualCameraEntity (cameraRun fs (resetTreeCamera t0 s)) = virtualCameraEntity s
         \<and> activeCinematicCamera (cameraRun fs (resetTreeCamera t0 s))
             = activeCinematicCamera s
         \<and> treeCameraPhase (cameraSystem now now2 p (cameraRun fs (resetTreeCamera t0 s)))
             = Tilt
         \<and> \<not> isAnimating (cameraSystem now now2 p (cameraRun fs (resetTreeCamera t0 s)))
         \<and> animationType (cameraSystem now now2 p (cameraRun fs (resetTreeCamera t0 s)))
             = None
         \<and> virtualCameraEntity (cameraSystem now now2 p (cameraRun fs (resetTreeCamera t0 s)))
             = None
         \<and> activeCinematicCamera
             (cameraSystem now now2 p (cameraRun fs (resetTreeCamera t0 s))) = None"
proof -
  let ?r = "resetTreeCamera t0 s"
  have r: "animationType ?r = Some Tree" "treeCameraPhase ?r = Return" "isAnimating ?r"
    "returnStartTime ?r = t0" "virtualCameraEntity ?r = virtualCameraEntity s"
    "activeCinematicCamera ?r = activeCinematicCamera s"
    using assms(1) by (simp_all add: resetTreeCamera_def)
  have early: "\<forall>f \<in> set fs. fst (snd f) < returnStartTime ?r + 2000"
    using assms(3) r(4) by simp
  note run = return_run_early [OF r(1,2,3) early]
  let ?m = "cameraRun fs ?r"
  have m: "animationType ?m = Some Tree" "treeCameraPhase ?m = Return" "isAnimating ?m"
    "returnStartTime ?m = t0" "virtualCameraEntity ?m = virtualCameraEntity s"
    "activeCinematicCamera ?m = activeCinematicCamera s"
    using run r by simp_all
  have late: "returnStartTime ?m + 2000 \<le> now2" using assms(4) m(4) by simp
  note last_frame = return_frame_done [OF m(1,2,3) late, of now p]
  have d: "treeCameraPhase (cameraSystem now now2 p ?m) = Tilt"
    "\<not> isAnimating (cameraSystem now now2 p ?m)"
    "animationType (cameraSystem now now2 p ?m) = None"
    "virtualCameraEntity (cameraSystem now now2 p ?m) = None"
    "activeCinematicCamera (cameraSystem now now2 p ?m) = None"
    unfolding last_frame by simp_all
  show ?thesis using r m d by simp
qed

theorem reset_during_orbit_returns_in_2000ms_witness:
  "animationType orbiting = Some Tree \<and> treeCameraPhase orbiting = Orbit
   \<and> treeCameraPhase (resetTreeCamera 8000 orbiting) = Return
   \<and> treeCameraPhase
        (cameraRun [(8016, 8016, Vector3 144 2 108), (9999, 9999, Vector3 144 2 108)]
          (resetTreeCamera 8000 orbiting)) = Return
   \<and> virtualCameraEntity
        (cameraRun [(8016, 8016, Vector3 144 2 108), (9999, 9999, Vector3 144 2 108)]
          (resetTreeCamera 8000 orbiting)) = Some TreeCinematicCamera
   \<and> treeCameraPhase
        (cameraSystem 10000 10000 (Vector3 144 2 108)
          (cameraRun [(8016, 8016, Vector3 144 2 108), (9999, 9999, Vector3 144 2 108)]
            (resetTreeCamera 8000 orbiting))) = Tilt
   \<and> virtualCameraEntity
        (cameraSystem 10000 10000 (Vector3 144 2 108)
          (cameraRun [(8016, 8016, Vector3 144 2 108), (9999, 9999, Vector3 144 2 108)]
            (resetTreeCamera 8000 orbiting))) = None"
proof -
  have a: "animationType orbiting = Some Tree" and b: "treeCameraPhase orbiting = Orbit"
    and v: "virtualCameraEntity orbiting = Some TreeCinematicCamera"
    by (simp_all add: orbiting_def)
  have c: "\<forall>f \<in> set [(8016, 8016, Vector3 144 2 108), (9999, 9999, Vector3 144 2 108)].
             fst (snd f) < (8000::int) + 2000"
    by simp
  have d: "(8000::int) + 2000 \<le> 10000" by simp
  note t = reset_during_orbit_returns_in_2000ms [OF a b c d, of 10000 "Vector3 144 2 108"]
  show ?thesis
    using a b v t by (simp del: cameraRun.simps)
qed

end
